theory Spec2Isabelle
  imports Main "HOL-Library.Finite_Map"
begin

section \<open>Session and credential core of \<^verbatim>\<open>src/main/main.js\<close>\<close>

text \<open>
  The development embeds the session and credential code of the main process:
  \<^verbatim>\<open>loadSavedSession\<close>, \<^verbatim>\<open>saveSession\<close>, \<^verbatim>\<open>clearSession\<close>, \<^verbatim>\<open>refreshSession\<close>, the
  database helpers \<^verbatim>\<open>getUserByEmail\<close> and \<^verbatim>\<open>saveUserToDB\<close>, and the IPC handlers
  \<^verbatim>\<open>register-user\<close>, \<^verbatim>\<open>login-user\<close>, \<^verbatim>\<open>get-current-user\<close>, \<^verbatim>\<open>logout\<close>,
  \<^verbatim>\<open>save-user-preferences\<close>, \<^verbatim>\<open>session-activity\<close> and \<^verbatim>\<open>validate-session\<close>.

  What the code takes from its environment is made explicit:
  \<^item> every call of \<^verbatim>\<open>Date.now()\<close> is an argument of type \<open>int\<close> (milliseconds), one
    argument per call, in the order of the calls;
  \<^item> the two functions of the \<^verbatim>\<open>bcrypt\<close> package and the salt it draws are parameters;
  \<^item> the module variable \<^verbatim>\<open>currentUser\<close> and the file at \<^verbatim>\<open>userSessionPath\<close> form the
    session state, the SQLite table \<^verbatim>\<open>user\<close> is the store; functions take the state and
    return the new one;
  \<^item> an exception is a value \<open>Inl (Error message)\<close>; each \<^verbatim>\<open>try/catch\<close> of the source is a
    case distinction on it.
\<close>

subsection \<open>JavaScript values\<close>

text \<open>
  The values that \<^verbatim>\<open>JSON.parse\<close> produces, with integers for numbers (the clock counts whole
  milliseconds). An array is an object too: besides its elements it can carry named
  properties, which is what \<^verbatim>\<open>currentUser.preferences = ...\<close> creates when the restored user
  is an array. \<^verbatim>\<open>undefined\<close> is \<open>None\<close> of \<open>jsval option\<close>.
\<close>

datatype jsval =
    JNull
  | JBool bool
  | JNum int
  | JStr string
  | JArr "jsval list" "(string, jsval) fmap"
  | JObj "(string, jsval) fmap"

text \<open>Truthiness, as \<^verbatim>\<open>if (v)\<close>, \<^verbatim>\<open>v && w\<close> and \<^verbatim>\<open>v || w\<close> test it.\<close>

fun truthy :: "jsval \<Rightarrow> bool" where
  "truthy JNull = False"
| "truthy (JBool b) = b"
| "truthy (JNum n) = (n \<noteq> 0)"
| "truthy (JStr s) = (s \<noteq> [])"
| "truthy (JArr xs ex) = True"
| "truthy (JObj m) = True"

fun truthy_opt :: "jsval option \<Rightarrow> bool" where
  "truthy_opt None = False"
| "truthy_opt (Some v) = truthy v"

text \<open>
  Property read \<^verbatim>\<open>v.k\<close> on a value that is not \<^verbatim>\<open>null\<close>. The code reads the names
  \<^verbatim>\<open>user\<close>, \<^verbatim>\<open>timestamp\<close>, \<^verbatim>\<open>id\<close>, \<^verbatim>\<open>name\<close>, \<^verbatim>\<open>email\<close> and \<^verbatim>\<open>preferences\<close> only; none
  of them is inherited from a prototype, so a primitive has none and an array has those
  that were assigned to it.
\<close>

fun get_prop :: "jsval \<Rightarrow> string \<Rightarrow> jsval option" where
  "get_prop (JObj m) k = fmlookup m k"
| "get_prop (JArr xs ex) k = fmlookup ex k"
| "get_prop v k = None"

text \<open>
  Assignment \<^verbatim>\<open>v.k = w\<close> on a value that is not \<^verbatim>\<open>null\<close>. The module is not in strict
  mode, so the assignment to a property of a primitive does nothing.
\<close>

fun set_prop :: "jsval \<Rightarrow> string \<Rightarrow> jsval \<Rightarrow> jsval" where
  "set_prop (JObj m) k w = JObj (fmupd k w m)"
| "set_prop (JArr xs ex) k w = JArr xs (fmupd k w ex)"
| "set_prop v k w = v"

text \<open>\<^verbatim>\<open>a || d\<close> where \<open>a\<close> may be \<^verbatim>\<open>undefined\<close>.\<close>

fun or_else :: "jsval option \<Rightarrow> jsval \<Rightarrow> jsval" where
  "or_else None d = d"
| "or_else (Some v) d = (if truthy v then v else d)"

text \<open>
  An object literal whose property values may be \<^verbatim>\<open>undefined\<close>, as \<^verbatim>\<open>JSON.stringify\<close>
  writes it: a property whose value is \<^verbatim>\<open>undefined\<close> is left out.
\<close>

fun props :: "(string \<times> jsval option) list \<Rightarrow> (string, jsval) fmap" where
  "props [] = fmempty"
| "props ((k, None) # kvs) = props kvs"
| "props ((k, Some v) # kvs) = fmupd k v (props kvs)"

text \<open>The name of the property that holds the element at an index: the index in decimal.\<close>

fun index_name :: "nat \<Rightarrow> string" where
  "index_name n =
     (if 10 \<le> n then index_name (n div 10) else []) @ [''0123456789'' ! (n mod 10)]"

declare index_name.simps [simp del]

text \<open>
  The own enumerable properties that an object spread \<^verbatim>\<open>{...v}\<close> copies: those of an
  object, the elements and named properties of an array, the characters of a string, and
  nothing for \<^verbatim>\<open>undefined\<close>, \<^verbatim>\<open>null\<close>, a boolean or a number.
\<close>

fun own_props :: "jsval option \<Rightarrow> (string, jsval) fmap" where
  "own_props (Some (JObj m)) = m"
| "own_props (Some (JArr xs ex)) =
     fmap_of_list (zip (map index_name [0..<length xs]) xs) ++\<^sub>f ex"
| "own_props (Some (JStr s)) =
     fmap_of_list (zip (map index_name [0..<length s]) (map (\<lambda>c. JStr [c]) s))"
| "own_props v = fmempty"

text \<open>
  \<^verbatim>\<open>JSON.parse (JSON.stringify v)\<close>: the named properties of arrays are not written, all
  else comes back as it was.
\<close>

primrec JSON_roundtrip :: "jsval \<Rightarrow> jsval" where
  "JSON_roundtrip JNull = JNull"
| "JSON_roundtrip (JBool b) = JBool b"
| "JSON_roundtrip (JNum n) = JNum n"
| "JSON_roundtrip (JStr s) = JStr s"
| "JSON_roundtrip (JArr xs ex) = JArr (map JSON_roundtrip xs) fmempty"
| "JSON_roundtrip (JObj m) = JObj (fmmap JSON_roundtrip m)"

subsection \<open>Conversion to a number\<close>

text \<open>
  \<^verbatim>\<open>currentTime - sessionData.timestamp\<close> converts the timestamp to a number first.
  \<open>None\<close> stands for \<^verbatim>\<open>NaN\<close>, and for the \<^verbatim>\<open>TypeError\<close> of a conversion that fails:
  \<^verbatim>\<open>loadSavedSession\<close> clears the session on both. Numbers are integers here. Of the
  strings, the empty one and the signed decimal integers are converted, ASCII white space
  around them allowed; text that is not numeric gives \<open>None\<close>, as in JavaScript; the
  other numeric notations (fractions, exponents, hexadecimal, \<^verbatim>\<open>Infinity\<close>) have no place
  among the integers and give \<open>None\<close> too. An array is converted through the string that
  joins its elements with commas, an object through \<^verbatim>\<open>[object Object]\<close>; with a
  property \<^verbatim>\<open>toString\<close> or \<^verbatim>\<open>join\<close> of its own, which is no function, an array gives
  a \<^verbatim>\<open>TypeError\<close> or \<^verbatim>\<open>[object Array]\<close>.
\<close>

definition is_white :: "char \<Rightarrow> bool" where
  "is_white c = (of_char c \<in> {9::nat, 10, 11, 12, 13, 32})"

definition is_digit :: "char \<Rightarrow> bool" where
  "is_digit c = (48 \<le> (of_char c :: nat) \<and> (of_char c :: nat) \<le> 57)"

definition digits_value :: "string \<Rightarrow> int" where
  "digits_value ds = foldl (\<lambda>a c. 10 * a + (int (of_char c) - 48)) 0 ds"

definition trim :: "string \<Rightarrow> string" where
  "trim s = rev (dropWhile is_white (rev (dropWhile is_white s)))"

definition StringToNumber :: "string \<Rightarrow> int option" where
  "StringToNumber s =
     (case trim s of
        [] \<Rightarrow> Some 0
      | c # ds \<Rightarrow>
          if c = CHR ''-'' \<and> ds \<noteq> [] \<and> list_all is_digit ds then Some (- digits_value ds)
          else if c = CHR ''+'' \<and> ds \<noteq> [] \<and> list_all is_digit ds then Some (digits_value ds)
          else if list_all is_digit (c # ds) then Some (digits_value (c # ds))
          else None)"

fun ToNumber :: "jsval \<Rightarrow> int option" where
  "ToNumber JNull = Some 0"
| "ToNumber (JBool b) = Some (if b then 1 else 0)"
| "ToNumber (JNum n) = Some n"
| "ToNumber (JStr s) = StringToNumber s"
| "ToNumber (JArr [] ex) =
     (if ''toString'' |\<in>| fmdom ex \<or> ''join'' |\<in>| fmdom ex then None else Some 0)"
| "ToNumber (JArr [x] ex) =
     (if ''toString'' |\<in>| fmdom ex \<or> ''join'' |\<in>| fmdom ex then None
      else
        (case x of
           JNull \<Rightarrow> Some 0
         | JBool b \<Rightarrow> None
         | JNum n \<Rightarrow> Some n
         | JStr s \<Rightarrow> StringToNumber s
         | JArr ys ey \<Rightarrow> ToNumber x
         | JObj m \<Rightarrow> None))"
| "ToNumber (JArr (x # y # zs) ex) = None"
| "ToNumber (JObj m) = None"

subsection \<open>Conversion to a string\<close>

text \<open>
  The template literal of a log line converts its value to a string, and the conversion
  of an object can throw. A property of a parsed value is never a function. So the
  conversion of an object fails when the object has a property \<^verbatim>\<open>toString\<close> of its own:
  the inherited \<^verbatim>\<open>valueOf\<close> returns the object, which is no primitive. An array without it
  is joined, which converts the elements other than \<^verbatim>\<open>null\<close>, unless it has a property
  \<^verbatim>\<open>join\<close> of its own and is printed as \<^verbatim>\<open>[object Array]\<close>.
\<close>

primrec ToString_throws :: "jsval \<Rightarrow> bool" where
  "ToString_throws JNull = False"
| "ToString_throws (JBool b) = False"
| "ToString_throws (JNum n) = False"
| "ToString_throws (JStr s) = False"
| "ToString_throws (JArr xs ex) =
     (''toString'' |\<in>| fmdom ex
      \<or> (''join'' |\<notin>| fmdom ex \<and> list_ex id (map ToString_throws xs)))"
| "ToString_throws (JObj m) = (''toString'' |\<in>| fmdom m)"

subsection \<open>The session file\<close>

text \<open>
  The text of the file is represented by what \<^verbatim>\<open>JSON.parse\<close> makes of it: a value, or a
  \<^verbatim>\<open>SyntaxError\<close>. The path holds no file, a file, or something that \<^verbatim>\<open>fs.existsSync\<close>
  reports but that cannot be read, written or unlinked (a directory, a file without
  permission): there \<^verbatim>\<open>readFileSync\<close>, \<^verbatim>\<open>writeFileSync\<close> and \<^verbatim>\<open>unlinkSync\<close> throw.
\<close>

datatype file_content = Unparseable | Parsed jsval

datatype fs_entry = Missing | File file_content | Unusable

datatype error = Error (message: string)

definition existsSync :: "fs_entry \<Rightarrow> bool" where
  "existsSync e = (e \<noteq> Missing)"

definition readFileSync :: "fs_entry \<Rightarrow> error + file_content" where
  "readFileSync e =
     (case e of
        Missing \<Rightarrow> Inl (Error ''ENOENT'')
      | File c \<Rightarrow> Inr c
      | Unusable \<Rightarrow> Inl (Error ''EACCES''))"

definition writeFileSync :: "file_content \<Rightarrow> fs_entry \<Rightarrow> error + fs_entry" where
  "writeFileSync c e =
     (case e of
        Unusable \<Rightarrow> Inl (Error ''EACCES'')
      | _ \<Rightarrow> Inr (File c))"

definition unlinkSync :: "fs_entry \<Rightarrow> error + fs_entry" where
  "unlinkSync e =
     (case e of
        Missing \<Rightarrow> Inl (Error ''ENOENT'')
      | File c \<Rightarrow> Inr Missing
      | Unusable \<Rightarrow> Inl (Error ''EPERM''))"

definition JSON_parse :: "file_content \<Rightarrow> error + jsval" where
  "JSON_parse c =
     (case c of
        Unparseable \<Rightarrow> Inl (Error ''SyntaxError'')
      | Parsed v \<Rightarrow> Inr v)"

definition JSON_stringify :: "jsval \<Rightarrow> file_content" where
  "JSON_stringify v = Parsed (JSON_roundtrip v)"

subsection \<open>Session state and the session functions\<close>

record state =
  currentUser :: jsval
  userSessionFile :: fs_entry

definition SESSION_TIMEOUT :: int where
  "SESSION_TIMEOUT = 24 * 60 * 60 * 1000"

text \<open>
  \<^verbatim>\<open>clearSession\<close>: when \<^verbatim>\<open>unlinkSync\<close> throws, the \<^verbatim>\<open>catch\<close> only logs, and
  \<^verbatim>\<open>currentUser = null\<close> is not reached.
\<close>

definition clearSession :: "state \<Rightarrow> state" where
  "clearSession st =
     (if existsSync (userSessionFile st) then
        (case unlinkSync (userSessionFile st) of
           Inl err \<Rightarrow> st
         | Inr e \<Rightarrow> st\<lparr>userSessionFile := e, currentUser := JNull\<rparr>)
      else st\<lparr>currentUser := JNull\<rparr>)"

text \<open>
  \<^verbatim>\<open>loadSavedSession\<close>, with the reading \<open>now\<close> of \<^verbatim>\<open>Date.now()\<close>. An exception of
  \<^verbatim>\<open>readFileSync\<close> or \<^verbatim>\<open>JSON.parse\<close> is caught and clears the session. A difference that
  is \<^verbatim>\<open>NaN\<close> is not below the timeout. After \<^verbatim>\<open>currentUser = sessionData.user\<close> the log
  line converts \<^verbatim>\<open>currentUser.email\<close> to a string; when that throws, the \<^verbatim>\<open>catch\<close> clears
  the session too. \<open>the\<close> reads a property only behind the test that finds it truthy.
\<close>

definition loadSavedSession :: "int \<Rightarrow> state \<Rightarrow> bool \<times> state" where
  "loadSavedSession now st =
     (if existsSync (userSessionFile st) then
        (case readFileSync (userSessionFile st) of
           Inl err \<Rightarrow> (False, clearSession st)
         | Inr text \<Rightarrow>
             (case JSON_parse text of
                Inl err \<Rightarrow> (False, clearSession st)
              | Inr sessionData \<Rightarrow>
                  if truthy sessionData \<and> truthy_opt (get_prop sessionData ''user'')
                     \<and> truthy_opt (get_prop sessionData ''timestamp'')
                  then
                    (case ToNumber (the (get_prop sessionData ''timestamp'')) of
                       None \<Rightarrow> (False, clearSession st)
                     | Some ts \<Rightarrow>
                         let currentTime = now; sessionAge = currentTime - ts in
                         if sessionAge < SESSION_TIMEOUT
                         then
                           (let st1 = st\<lparr>currentUser := the (get_prop sessionData ''user'')\<rparr>
                            in case get_prop (currentUser st1) ''email'' of
                                 None \<Rightarrow> (True, st1)
                               | Some email \<Rightarrow>
                                   if ToString_throws email then (False, clearSession st1)
                                   else (True, st1))
                         else (False, clearSession st))
                  else (False, st)))
      else (False, st))"

text \<open>
  \<^verbatim>\<open>saveSession\<close>, with the two readings of \<^verbatim>\<open>Date.now()\<close>: \<open>t1\<close> for \<^verbatim>\<open>timestamp\<close>,
  \<open>t2\<close> for \<^verbatim>\<open>expiresAt\<close>. Reading a property of \<^verbatim>\<open>null\<close> throws, and so may
  \<^verbatim>\<open>writeFileSync\<close>; the \<^verbatim>\<open>catch\<close> only logs. The log line that follows the write
  changes nothing, whether it throws or not.
\<close>

definition saveSession :: "int \<Rightarrow> int \<Rightarrow> jsval \<Rightarrow> state \<Rightarrow> state" where
  "saveSession t1 t2 userData st =
     (if userData = JNull then st
      else
        let sessionData = JObj (props
              [(''user'', Some (JObj (props
                  [(''id'', get_prop userData ''id''),
                   (''name'', get_prop userData ''name''),
                   (''email'', get_prop userData ''email''),
                   (''preferences'',
                      Some (or_else (get_prop userData ''preferences'') (JObj fmempty)))]))),
               (''timestamp'', Some (JNum t1)),
               (''expiresAt'', Some (JNum (t2 + SESSION_TIMEOUT)))])
        in (case writeFileSync (JSON_stringify sessionData) (userSessionFile st) of
              Inl err \<Rightarrow> st
            | Inr e \<Rightarrow> st\<lparr>userSessionFile := e\<rparr>))"

definition refreshSession :: "int \<Rightarrow> int \<Rightarrow> state \<Rightarrow> state" where
  "refreshSession t1 t2 st =
     (if truthy (currentUser st) then saveSession t1 t2 (currentUser st) st else st)"

subsection \<open>Session handlers\<close>

text \<open>
  \<^verbatim>\<open>get-current-user\<close>: \<open>now\<close> is the reading inside \<^verbatim>\<open>loadSavedSession\<close>, \<open>t1\<close> and
  \<open>t2\<close> are those of the \<^verbatim>\<open>saveSession\<close> that \<^verbatim>\<open>refreshSession\<close> calls.
\<close>

definition get_current_user :: "int \<Rightarrow> int \<Rightarrow> int \<Rightarrow> state \<Rightarrow> jsval \<times> state" where
  "get_current_user now t1 t2 st =
     (if truthy (currentUser st) then
        (case loadSavedSession now st of
           (sessionValid, st1) \<Rightarrow>
             if sessionValid then
               (let st2 = refreshSession t1 t2 st1 in (currentUser st2, st2))
             else (JNull, st1))
      else (JNull, st))"

text \<open>\<^verbatim>\<open>validate-session\<close> returns what \<^verbatim>\<open>loadSavedSession\<close> returns.\<close>

definition validate_session :: "int \<Rightarrow> state \<Rightarrow> bool \<times> state" where
  "validate_session now st = loadSavedSession now st"

text \<open>\<^verbatim>\<open>session-activity\<close> calls \<^verbatim>\<open>refreshSession\<close>.\<close>

definition session_activity :: "int \<Rightarrow> int \<Rightarrow> state \<Rightarrow> state" where
  "session_activity t1 t2 st = refreshSession t1 t2 st"

text \<open>
  \<^verbatim>\<open>logout\<close>: of its effects only \<^verbatim>\<open>clearSession\<close> touches the session state; the rest
  (preload script, browser storage, navigation) belongs to the window.
\<close>

definition logout :: "state \<Rightarrow> state" where
  "logout st = clearSession st"

text \<open>
  \<^verbatim>\<open>save-user-preferences\<close>:
  \<^verbatim>\<open>currentUser.preferences = { ...currentUser.preferences, ...preferences }\<close>, then
  \<^verbatim>\<open>saveSession(currentUser)\<close>. An argument that is \<^verbatim>\<open>undefined\<close> spreads like \<^verbatim>\<open>null\<close>.
\<close>

definition save_user_preferences :: "int \<Rightarrow> int \<Rightarrow> jsval \<Rightarrow> state \<Rightarrow> state" where
  "save_user_preferences t1 t2 preferences st =
     (if \<not> truthy (currentUser st) then st
      else
        let merged = own_props (get_prop (currentUser st) ''preferences'')
                       ++\<^sub>f own_props (Some preferences);
            user = set_prop (currentUser st) ''preferences'' (JObj merged)
        in saveSession t1 t2 user (st\<lparr>currentUser := user\<rparr>))"

subsection \<open>The credential store\<close>

text \<open>
  The table \<^verbatim>\<open>user\<close> of \<^verbatim>\<open>database.js\<close>: \<^verbatim>\<open>id INTEGER PRIMARY KEY AUTOINCREMENT\<close>,
  \<^verbatim>\<open>name\<close>, \<^verbatim>\<open>email TEXT UNIQUE\<close>, \<^verbatim>\<open>password\<close> (the column \<^verbatim>\<open>created_at\<close> is never read).
  \<open>seq\<close> is the largest row id ever given out, which \<^verbatim>\<open>AUTOINCREMENT\<close> keeps in
  \<^verbatim>\<open>sqlite_sequence\<close>. \<open>fault\<close> is \<open>Some m\<close> when the connection raises an error with message
  \<open>m\<close> on every statement (a closed connection, an I/O error), and \<open>None\<close> when it works.
\<close>

record user_row =
  user_id :: int
  user_name :: string
  user_email :: string
  user_password :: string

record store =
  rows :: "user_row list"
  seq :: int
  fault :: "string option"

text \<open>\<^verbatim>\<open>SELECT * FROM user WHERE email = ?\<close> with \<^verbatim>\<open>stmt.get\<close>: the first row that matches.\<close>

definition getUserByEmail :: "string \<Rightarrow> store \<Rightarrow> error + user_row option" where
  "getUserByEmail email db =
     (case fault db of
        Some m \<Rightarrow> Inl (Error m)
      | None \<Rightarrow> Inr (find (\<lambda>r. user_email r = email) (rows db)))"

definition next_rowid :: "store \<Rightarrow> int" where
  "next_rowid db = max (seq db) (fold max (map user_id (rows db)) 0) + 1"

text \<open>
  \<^verbatim>\<open>INSERT INTO user (name, email, password) VALUES (?, ?, ?)\<close>: the \<^verbatim>\<open>UNIQUE\<close> constraint
  on \<^verbatim>\<open>email\<close> aborts the statement with an error and leaves the table as it was; otherwise
  the row is added and \<^verbatim>\<open>lastInsertRowid\<close> returned. The \<^verbatim>\<open>catch\<close> logs and throws the error
  again.
\<close>

definition saveUserToDB :: "string \<Rightarrow> string \<Rightarrow> string \<Rightarrow> store \<Rightarrow> error + (int \<times> store)" where
  "saveUserToDB name email password db =
     (case fault db of
        Some m \<Rightarrow> Inl (Error m)
      | None \<Rightarrow>
          if email \<in> set (map user_email (rows db))
          then Inl (Error ''UNIQUE constraint failed: user.email'')
          else
            let lastInsertRowid = next_rowid db in
            Inr (lastInsertRowid,
                 db\<lparr>rows := rows db @
                        [\<lparr>user_id = lastInsertRowid, user_name = name,
                          user_email = email, user_password = password\<rparr>],
                    seq := lastInsertRowid\<rparr>))"

subsection \<open>Password hashing\<close>

text \<open>
  \<^verbatim>\<open>bcrypt.hash\<close> and \<^verbatim>\<open>bcrypt.compare\<close> come from the \<^verbatim>\<open>bcrypt\<close> package. They are
  parameters: \<open>bcrypt_hash lib rounds salt data\<close> with the salt that the package would draw
  at random, and \<open>bcrypt_compare lib data hash\<close>.
\<close>

record bcrypt =
  bcrypt_hash :: "nat \<Rightarrow> string \<Rightarrow> string \<Rightarrow> string"
  bcrypt_compare :: "string \<Rightarrow> string \<Rightarrow> bool"

definition hashPassword :: "bcrypt \<Rightarrow> string \<Rightarrow> string \<Rightarrow> string" where
  "hashPassword lib salt password = (let saltRounds = 10 in bcrypt_hash lib saltRounds salt password)"

definition comparePassword :: "bcrypt \<Rightarrow> string \<Rightarrow> string \<Rightarrow> bool" where
  "comparePassword lib password hash = bcrypt_compare lib password hash"

subsection \<open>Registration and login\<close>

text \<open>The two shapes of a handler's answer.\<close>

definition failure :: "string \<Rightarrow> jsval" where
  "failure msg = JObj (fmap_of_list [(''success'', JBool False), (''message'', JStr msg)])"

definition registered :: "int \<Rightarrow> jsval" where
  "registered userId = JObj (fmap_of_list [(''success'', JBool True), (''userId'', JNum userId)])"

definition logged_in :: "jsval \<Rightarrow> jsval" where
  "logged_in user = JObj (fmap_of_list [(''success'', JBool True), (''user'', user)])"

text \<open>
  \<^verbatim>\<open>register-user\<close>. The handler is suspended at \<^verbatim>\<open>await hashPassword(...)\<close> while the hash
  is computed outside the main thread, and other handlers run in between.
  \<open>register_user_insert\<close> is the handler from the insertion on, run on the store as it is
  when the handler resumes; \<open>register_user\<close> is the whole handler when nothing else
  touches the store meanwhile. The \<^verbatim>\<open>catch\<close> turns every error into
  \<^verbatim>\<open>{ success: false, message: error.message }\<close>.
\<close>

definition register_user_insert :: "string \<Rightarrow> string \<Rightarrow> string \<Rightarrow> store \<Rightarrow> jsval \<times> store" where
  "register_user_insert name email hashedPassword db =
     (case saveUserToDB name email hashedPassword db of
        Inl err \<Rightarrow> (failure (message err), db)
      | Inr (userId, db') \<Rightarrow> (registered userId, db'))"

definition register_user ::
  "bcrypt \<Rightarrow> string \<Rightarrow> string \<Rightarrow> string \<Rightarrow> string \<Rightarrow> store \<Rightarrow> jsval \<times> store" where
  "register_user lib salt name email password db =
     (case getUserByEmail email db of
        Inl err \<Rightarrow> (failure (message err), db)
      | Inr (Some existingUser) \<Rightarrow> (failure ''Email already registered'', db)
      | Inr None \<Rightarrow>
          let hashedPassword = hashPassword lib salt password in
          register_user_insert name email hashedPassword db)"

text \<open>The user object that \<^verbatim>\<open>login-user\<close> builds from the row, with the default preferences.\<close>

definition user_view :: "user_row \<Rightarrow> jsval" where
  "user_view user = JObj (fmap_of_list
     [(''id'', JNum (user_id user)),
      (''name'', JStr (user_name user)),
      (''email'', JStr (user_email user)),
      (''preferences'', JObj (fmap_of_list
          [(''darkMode'', JBool False), (''lastUsedAI'', JStr ''claude'')]))])"

text \<open>
  \<^verbatim>\<open>login-user\<close>; \<open>t1\<close> and \<open>t2\<close> are the clock readings of its \<^verbatim>\<open>saveSession\<close>. No
  other handler changes the session state while this one waits for \<^verbatim>\<open>comparePassword\<close>.
\<close>

definition login_user ::
  "bcrypt \<Rightarrow> string \<Rightarrow> string \<Rightarrow> int \<Rightarrow> int \<Rightarrow> store \<Rightarrow> state \<Rightarrow> jsval \<times> state" where
  "login_user lib email password t1 t2 db st =
     (case getUserByEmail email db of
        Inl err \<Rightarrow> (failure (message err), st)
      | Inr None \<Rightarrow> (failure ''User not found'', st)
      | Inr (Some user) \<Rightarrow>
          let passwordMatch = comparePassword lib password (user_password user) in
          if \<not> passwordMatch then (failure ''Invalid password'', st)
          else
            let cu = user_view user;
                st' = saveSession t1 t2 cu (st\<lparr>currentUser := cu\<rparr>)
            in (logged_in (currentUser st'), st'))"

subsection \<open>Repeated restore\<close>

text \<open>
  \<open>restores now n st\<close> calls \<^verbatim>\<open>loadSavedSession\<close> \<open>n\<close> times in a row at the clock reading
  \<open>now\<close>; it returns the booleans, in the order of the calls, and the final state.
\<close>

fun restores :: "int \<Rightarrow> nat \<Rightarrow> state \<Rightarrow> bool list \<times> state" where
  "restores now 0 st = ([], st)"
| "restores now (Suc n) st =
     (case loadSavedSession now st of
        (b, st1) \<Rightarrow> (case restores now n st1 of (bs, st2) \<Rightarrow> (b # bs, st2)))"

subsection \<open>The times of the stored record\<close>

text \<open>The \<^verbatim>\<open>timestamp\<close> and \<^verbatim>\<open>expiresAt\<close> of the record in the session file, when both are numbers.\<close>

definition record_times :: "fs_entry \<Rightarrow> (int \<times> int) option" where
  "record_times e =
     (case e of
        File (Parsed d) \<Rightarrow>
          (case (get_prop d ''timestamp'', get_prop d ''expiresAt'') of
             (Some (JNum t), Some (JNum x)) \<Rightarrow> Some (t, x)
           | _ \<Rightarrow> None)
      | _ \<Rightarrow> None)"

subsection \<open>Example data\<close>

text \<open>
  A stand-in for the \<^verbatim>\<open>bcrypt\<close> package, a store with one registered user, and session
  states, for the concrete instances below.
\<close>

definition example_bcrypt :: bcrypt where
  "example_bcrypt =
     \<lparr>bcrypt_hash = (\<lambda>rounds salt data. rev data),
      bcrypt_compare = (\<lambda>data hash. rev hash = data)\<rparr>"

definition alice :: user_row where
  "alice = \<lparr>user_id = 1, user_name = ''Alice'', user_email = ''a@x.com'',
            user_password = ''321wp''\<rparr>"

definition empty_store :: store where
  "empty_store = \<lparr>rows = [], seq = 0, fault = None\<rparr>"

definition alice_store :: store where
  "alice_store = \<lparr>rows = [alice], seq = 1, fault = None\<rparr>"

definition no_session :: state where
  "no_session = \<lparr>currentUser = JNull, userSessionFile = Missing\<rparr>"

text \<open>The state after Alice has logged in at clock reading 1000.\<close>

definition alice_session :: state where
  "alice_session =
     \<lparr>currentUser = user_view alice,
      userSessionFile = File (Parsed (JObj (fmap_of_list
        [(''user'', user_view alice), (''timestamp'', JNum 1000),
         (''expiresAt'', JNum (1000 + SESSION_TIMEOUT))])))\<rparr>"

section \<open>Auxiliary facts\<close>

lemma truthy_user_view: "truthy (user_view r)"
  by (simp add: user_view_def)

lemma user_view_email: "get_prop (user_view r) ''email'' = Some (JStr (user_email r))"
  by (simp add: user_view_def)

lemma saveSession_currentUser: "currentUser (saveSession t1 t2 u st) = currentUser st"
  by (simp add: saveSession_def Let_def split: sum.splits)

lemma writeFileSync_ok: "e \<noteq> Unusable \<Longrightarrow> writeFileSync c e = Inr (File c)"
  by (cases e) (simp_all add: writeFileSync_def)

text \<open>What \<^verbatim>\<open>saveSession\<close> writes for the user object of \<^verbatim>\<open>login-user\<close>.\<close>

lemma saveSession_user_view:
  assumes "userSessionFile st \<noteq> Unusable"
  shows "saveSession t1 t2 (user_view r) st =
     st\<lparr>userSessionFile := File (Parsed (JObj (fmap_of_list
        [(''user'', user_view r), (''timestamp'', JNum t1),
         (''expiresAt'', JNum (t2 + SESSION_TIMEOUT))])))\<rparr>"
  using assms
  by (simp add: saveSession_def Let_def writeFileSync_ok JSON_stringify_def user_view_def
      fmmap_fmupd)

text \<open>
  \<^verbatim>\<open>loadSavedSession\<close> on a record with a user whose email is a string and a numeric
  timestamp other than 0.
\<close>

lemma loadSavedSession_record:
  assumes "userSessionFile st = File (Parsed d)" and "truthy d"
    and "get_prop d ''user'' = Some u" and "truthy u"
    and "get_prop d ''timestamp'' = Some (JNum T)" and "T \<noteq> 0"
    and "get_prop u ''email'' = Some (JStr e)"
  shows "loadSavedSession now st =
     (if now - T < SESSION_TIMEOUT then (True, st\<lparr>currentUser := u\<rparr>)
      else (False, st\<lparr>userSessionFile := Missing, currentUser := JNull\<rparr>))"
  using assms
  by (simp add: loadSavedSession_def existsSync_def readFileSync_def JSON_parse_def
      clearSession_def unlinkSync_def Let_def)

lemma failure_not_logged_in: "failure m \<noteq> logged_in u"
proof
  assume "failure m = logged_in u"
  then have "get_prop (failure m) ''success'' = get_prop (logged_in u) ''success''"
    by simp
  then show False
    by (simp add: failure_def logged_in_def)
qed

lemma logged_in_inject: "logged_in u = logged_in v \<Longrightarrow> u = v"
proof -
  assume "logged_in u = logged_in v"
  then have "get_prop (logged_in u) ''user'' = get_prop (logged_in v) ''user''"
    by simp
  then show ?thesis
    by (simp add: logged_in_def)
qed

text \<open>A successful login found a row, verified the password and saved the session.\<close>

lemma login_user_success:
  assumes "login_user lib email password t1 t2 db st0 = (logged_in user, st)"
  shows "\<exists>row. getUserByEmail email db = Inr (Some row)
            \<and> comparePassword lib password (user_password row)
            \<and> user = user_view row
            \<and> st = saveSession t1 t2 (user_view row) (st0\<lparr>currentUser := user_view row\<rparr>)"
  using assms failure_not_logged_in
  by (auto simp: login_user_def Let_def saveSession_currentUser
      split: sum.splits option.splits if_splits dest: logged_in_inject)

lemma login_alice:
  "login_user example_bcrypt ''a@x.com'' ''pw123'' 1000 1000 alice_store no_session
     = (logged_in (user_view alice), alice_session)"
  by (simp add: login_user_def getUserByEmail_def alice_store_def alice_def no_session_def
      example_bcrypt_def comparePassword_def Let_def saveSession_user_view
      saveSession_currentUser alice_session_def)

lemma find_None_iff_email:
  "find (\<lambda>r. user_email r = email) rs = None \<longleftrightarrow> email \<notin> set (map user_email rs)"
  by (induction rs) auto

lemma find_email_append:
  "email \<notin> set (map user_email rs) \<Longrightarrow> user_email r = email \<Longrightarrow>
   find (\<lambda>r. user_email r = email) (rs @ [r]) = Some r"
  by (induction rs) auto

lemma find_distinct_email:
  "distinct (map user_email rs) \<Longrightarrow> r \<in> set rs \<Longrightarrow>
   find (\<lambda>x. user_email x = user_email r) rs = Some r"
  by (induction rs) auto


text \<open>\<^verbatim>\<open>saveUserToDB\<close> keeps the emails of the rows distinct.\<close>

lemma saveUserToDB_distinct:
  assumes "distinct (map user_email (rows db))"
    and "saveUserToDB name email password db = Inr (userId, db')"
  shows "distinct (map user_email (rows db'))"
  using assms
  by (auto simp: saveUserToDB_def Let_def split: option.splits if_splits)

lemma failure_inject: "failure m = failure m' \<Longrightarrow> m = m'"
proof -
  assume "failure m = failure m'"
  then have "get_prop (failure m) ''message'' = get_prop (failure m') ''message''"
    by simp
  then show ?thesis
    by (simp add: failure_def)
qed

text \<open>A second \<^verbatim>\<open>loadSavedSession\<close> at the same clock reading repeats the first.\<close>

lemma loadSavedSession_again:
  assumes "loadSavedSession now st = (b, st1)"
  shows "loadSavedSession now st1 = (b, st1)"
proof (cases "userSessionFile st")
  case Missing
  with assms show ?thesis
    by (auto simp: loadSavedSession_def existsSync_def)
next
  case Unusable
  with assms show ?thesis
    by (auto simp: loadSavedSession_def existsSync_def readFileSync_def clearSession_def
        unlinkSync_def)
next
  case (File c)
  show ?thesis
  proof (cases c)
    case Unparseable
    with File assms show ?thesis
      by (auto simp: loadSavedSession_def existsSync_def readFileSync_def clearSession_def
          unlinkSync_def JSON_parse_def)
  next
    case (Parsed d)
    with File assms show ?thesis
      by (auto simp: loadSavedSession_def existsSync_def readFileSync_def clearSession_def
          unlinkSync_def JSON_parse_def Let_def split: if_splits option.splits)
  qed
qed

lemma restores_fixed:
  assumes "loadSavedSession now st = (b, st)"
  shows "restores now n st = (replicate n b, st)"
  using assms by (induction n) simp_all

text \<open>What \<^verbatim>\<open>saveSession\<close> writes, whatever the user object.\<close>

lemma saveSession_file:
  assumes "u \<noteq> JNull" and "userSessionFile st \<noteq> Unusable"
  shows "\<exists>d m. saveSession t1 t2 u st = st\<lparr>userSessionFile := File (Parsed d)\<rparr>
    \<and> truthy d
    \<and> get_prop d ''timestamp'' = Some (JNum t1)
    \<and> get_prop d ''expiresAt'' = Some (JNum (t2 + SESSION_TIMEOUT))
    \<and> get_prop d ''user'' = Some (JObj m)
    \<and> fmlookup m ''id'' = map_option JSON_roundtrip (get_prop u ''id'')
    \<and> fmlookup m ''name'' = map_option JSON_roundtrip (get_prop u ''name'')
    \<and> fmlookup m ''email'' = map_option JSON_roundtrip (get_prop u ''email'')
    \<and> fmlookup m ''preferences'' =
          Some (JSON_roundtrip (or_else (get_prop u ''preferences'') (JObj fmempty)))"
  using assms
  apply (simp add: saveSession_def Let_def writeFileSync_ok JSON_stringify_def)
  apply (cases "get_prop u ''id''"; cases "get_prop u ''name''"; cases "get_prop u ''email''")
         apply (auto simp: fmmap_fmupd)
  done

lemma saveSession_times:
  assumes "u \<noteq> JNull" and "userSessionFile st \<noteq> Unusable"
  shows "record_times (userSessionFile (saveSession t1 t2 u st)) = Some (t1, t2 + SESSION_TIMEOUT)"
proof -
  from saveSession_file [OF assms, of t1 t2] obtain d where
    "saveSession t1 t2 u st = st\<lparr>userSessionFile := File (Parsed d)\<rparr>"
    "get_prop d ''timestamp'' = Some (JNum t1)"
    "get_prop d ''expiresAt'' = Some (JNum (t2 + SESSION_TIMEOUT))"
    by blast
  then show ?thesis
    by (simp add: record_times_def)
qed

lemma truthy_not_null: "truthy u \<Longrightarrow> u \<noteq> JNull"
  by auto

lemma truthy_set_prop: "truthy u \<Longrightarrow> truthy (set_prop u k w)"
  by (cases u) simp_all

section \<open>The claims\<close>

text \<open>
  C1. When the store works and does not hold the email, \<^verbatim>\<open>register-user\<close> succeeds, and
  \<^verbatim>\<open>login-user\<close> with the same email and password on the resulting store succeeds and
  returns a user whose \<^verbatim>\<open>email\<close> is the registered one. Name, email and password are any
  strings; of \<^verbatim>\<open>bcrypt\<close> the proof needs that \<^verbatim>\<open>compare\<close> accepts the password against the
  hash that \<^verbatim>\<open>hash\<close> made of it.
\<close>

theorem register_then_login:
  assumes works: "fault db = None"
    and fresh: "email \<notin> set (map user_email (rows db))"
    and bcrypt: "bcrypt_compare lib password (bcrypt_hash lib 10 salt password)"
  shows "\<exists>userId db'. register_user lib salt name email password db = (registered userId, db')
          \<and> (\<exists>user st'. login_user lib email password t1 t2 db' st = (logged_in user, st')
                \<and> get_prop user ''email'' = Some (JStr email))"
proof -
  let ?h = "hashPassword lib salt password"
  let ?row = "\<lparr>user_id = next_rowid db, user_name = name, user_email = email,
               user_password = ?h\<rparr>"
  let ?db' = "db\<lparr>rows := rows db @ [?row], seq := next_rowid db\<rparr>"
  from fresh have none: "find (\<lambda>r. user_email r = email) (rows db) = None"
    by (simp add: find_None_iff_email)
  have reg: "register_user lib salt name email password db = (registered (next_rowid db), ?db')"
    using works fresh none
    by (simp add: register_user_def getUserByEmail_def register_user_insert_def
        saveUserToDB_def Let_def)
  have found: "getUserByEmail email ?db' = Inr (Some ?row)"
    using works fresh by (simp add: getUserByEmail_def find_email_append)
  have match: "comparePassword lib password (user_password ?row)"
    using bcrypt by (simp add: comparePassword_def hashPassword_def)
  have "login_user lib email password t1 t2 ?db' st =
      (logged_in (user_view ?row),
       saveSession t1 t2 (user_view ?row) (st\<lparr>currentUser := user_view ?row\<rparr>))"
    using found match by (simp add: login_user_def Let_def saveSession_currentUser)
  moreover have "get_prop (user_view ?row) ''email'' = Some (JStr email)"
    by (simp add: user_view_def)
  ultimately show ?thesis
    using reg by blast
qed

theorem register_then_login_witness:
  "register_user example_bcrypt ''salt'' ''Alice'' ''a@x.com'' ''pw123'' empty_store
     = (registered 1, alice_store)
   \<and> login_user example_bcrypt ''a@x.com'' ''pw123'' 1000 1000 alice_store no_session
     = (logged_in (user_view alice), alice_session)
   \<and> get_prop (user_view alice) ''email'' = Some (JStr ''a@x.com'')"
proof -
  have works: "fault empty_store = None"
    by (simp add: empty_store_def)
  have fresh: "''a@x.com'' \<notin> set (map user_email (rows empty_store))"
    by (simp add: empty_store_def)
  have bcrypt: "bcrypt_compare example_bcrypt ''pw123''
      (bcrypt_hash example_bcrypt 10 ''salt'' ''pw123'')"
    by (simp add: example_bcrypt_def)
  have reg: "register_user example_bcrypt ''salt'' ''Alice'' ''a@x.com'' ''pw123'' empty_store
     = (registered 1, alice_store)"
    by (simp add: register_user_def getUserByEmail_def register_user_insert_def
        saveUserToDB_def Let_def empty_store_def alice_store_def alice_def next_rowid_def
        hashPassword_def example_bcrypt_def)
  from register_then_login [OF works fresh bcrypt, of "''Alice''" 1000 1000 no_session]
  obtain userId db' user st' where
    "register_user example_bcrypt ''salt'' ''Alice'' ''a@x.com'' ''pw123'' empty_store
       = (registered userId, db')"
    "login_user example_bcrypt ''a@x.com'' ''pw123'' 1000 1000 db' no_session
       = (logged_in user, st')"
    "get_prop user ''email'' = Some (JStr ''a@x.com'')"
    by blast
  with reg show ?thesis
    by (simp add: login_alice user_view_def alice_def)
qed

text \<open>
  C2. A session established by a login at clock reading \<open>T\<close> (the reading that becomes the
  record's \<^verbatim>\<open>timestamp\<close>): \<^verbatim>\<open>get-current-user\<close> at a reading \<open>T'\<close> with
  \<open>T' - T < SESSION_TIMEOUT\<close> returns the session's user; at a reading with
  \<open>T' - T \<ge> SESSION_TIMEOUT\<close> it returns \<^verbatim>\<open>null\<close>, deletes the session file and resets
  \<^verbatim>\<open>currentUser\<close>. The login must have been able to write the file, and \<open>T\<close> is not 0:
  a \<^verbatim>\<open>timestamp\<close> of 0 is falsy, and \<^verbatim>\<open>loadSavedSession\<close> then takes the record for
  none.
\<close>

theorem current_user_ttl:
  assumes login: "login_user lib email password T t2 db st0 = (logged_in user, st)"
    and usable: "userSessionFile st0 \<noteq> Unusable"
    and T: "T \<noteq> 0"
  shows "(T' - T < SESSION_TIMEOUT \<longrightarrow> fst (get_current_user T' r1 r2 st) = user)
       \<and> (SESSION_TIMEOUT \<le> T' - T \<longrightarrow>
            fst (get_current_user T' r1 r2 st) = JNull
          \<and> userSessionFile (snd (get_current_user T' r1 r2 st)) = Missing
          \<and> currentUser (snd (get_current_user T' r1 r2 st)) = JNull)"
proof -
  from login obtain row where u: "user = user_view row"
    and st: "st = saveSession T t2 (user_view row) (st0\<lparr>currentUser := user_view row\<rparr>)"
    using login_user_success by blast
  let ?d = "JObj (fmap_of_list
        [(''user'', user_view row), (''timestamp'', JNum T),
         (''expiresAt'', JNum (t2 + SESSION_TIMEOUT))])"
  have st': "st = \<lparr>currentUser = user_view row, userSessionFile = File (Parsed ?d)\<rparr>"
    using st usable by (simp add: saveSession_user_view)
  have load: "loadSavedSession T' st =
     (if T' - T < SESSION_TIMEOUT then (True, st\<lparr>currentUser := user_view row\<rparr>)
      else (False, st\<lparr>userSessionFile := Missing, currentUser := JNull\<rparr>))"
    by (rule loadSavedSession_record [where d = ?d]) (simp_all add: st' truthy_user_view user_view_email T)
  show ?thesis
    using load
    by (simp add: get_current_user_def st' u truthy_user_view refreshSession_def
        saveSession_currentUser Let_def)
qed

theorem current_user_ttl_witness:
  "fst (get_current_user 5000 5001 5001 alice_session) = user_view alice
   \<and> fst (get_current_user (1000 + SESSION_TIMEOUT) 0 0 alice_session) = JNull
   \<and> userSessionFile (snd (get_current_user (1000 + SESSION_TIMEOUT) 0 0 alice_session))
       = Missing
   \<and> currentUser (snd (get_current_user (1000 + SESSION_TIMEOUT) 0 0 alice_session)) = JNull"
proof -
  have usable: "userSessionFile no_session \<noteq> Unusable"
    by (simp add: no_session_def)
  have T: "(1000::int) \<noteq> 0"
    by simp
  have "(5000::int) - 1000 < SESSION_TIMEOUT"
    by (simp add: SESSION_TIMEOUT_def)
  moreover have "SESSION_TIMEOUT \<le> (1000 + SESSION_TIMEOUT) - 1000"
    by simp
  ultimately show ?thesis
    using current_user_ttl [OF login_alice usable T, of 5000 5001 5001]
      current_user_ttl [OF login_alice usable T, of "1000 + SESSION_TIMEOUT" 0 0]
    by simp
qed

text \<open>
  C3, as amended. When the session file holds text that \<^verbatim>\<open>JSON.parse\<close> rejects,
  \<^verbatim>\<open>loadSavedSession\<close> returns \<^verbatim>\<open>false\<close>, deletes the file and resets \<^verbatim>\<open>currentUser\<close>;
  \<^verbatim>\<open>get-current-user\<close> returns \<^verbatim>\<open>null\<close>, and deletes the file when \<^verbatim>\<open>currentUser\<close> is
  set. When the file parses but the value has no truthy \<^verbatim>\<open>user\<close> or \<^verbatim>\<open>timestamp\<close>, the
  two return \<^verbatim>\<open>false\<close> and \<^verbatim>\<open>null\<close> as well. These are the results they give when there
  is no file.
\<close>

theorem corrupt_record_restore:
  "(userSessionFile st = File Unparseable \<longrightarrow>
      loadSavedSession now st
        = (False, st\<lparr>userSessionFile := Missing, currentUser := JNull\<rparr>)
    \<and> fst (get_current_user now t1 t2 st) = JNull
    \<and> (truthy (currentUser st) \<longrightarrow>
          snd (get_current_user now t1 t2 st)
            = st\<lparr>userSessionFile := Missing, currentUser := JNull\<rparr>))
   \<and> (userSessionFile st = File (Parsed d)
        \<and> \<not> (truthy d \<and> truthy_opt (get_prop d ''user'')
               \<and> truthy_opt (get_prop d ''timestamp'')) \<longrightarrow>
      fst (loadSavedSession now st) = False
    \<and> fst (get_current_user now t1 t2 st) = JNull)
   \<and> (userSessionFile st = Missing \<longrightarrow>
      fst (loadSavedSession now st) = False
    \<and> fst (get_current_user now t1 t2 st) = JNull)"
  by (auto simp: loadSavedSession_def get_current_user_def existsSync_def readFileSync_def
      JSON_parse_def clearSession_def unlinkSync_def)

theorem corrupt_record_restore_witness:
  "loadSavedSession 1000 \<lparr>currentUser = user_view alice, userSessionFile = File Unparseable\<rparr>
     = (False, no_session)
   \<and> get_current_user 1000 1000 1000
        \<lparr>currentUser = user_view alice, userSessionFile = File Unparseable\<rparr>
     = (JNull, no_session)
   \<and> fst (loadSavedSession 1000
        \<lparr>currentUser = JNull, userSessionFile = File (Parsed (JObj fmempty))\<rparr>) = False
   \<and> fst (loadSavedSession 1000 no_session) = False
   \<and> fst (get_current_user 1000 1000 1000 no_session) = JNull"
  using corrupt_record_restore
    [where st = "\<lparr>currentUser = user_view alice, userSessionFile = File Unparseable\<rparr>"
       and now = 1000 and ?t1.0 = 1000 and ?t2.0 = 1000]
    corrupt_record_restore
    [where st = "\<lparr>currentUser = JNull, userSessionFile = File (Parsed (JObj fmempty))\<rparr>"
       and d = "JObj fmempty" and now = 1000 and ?t1.0 = 1000 and ?t2.0 = 1000]
    corrupt_record_restore [where st = no_session and now = 1000 and ?t1.0 = 1000 and ?t2.0 = 1000]
  by (simp add: truthy_user_view no_session_def prod_eq_iff)

text \<open>
  C3 as stated fails twice. A file that parses but holds no session record, here \<^verbatim>\<open>{}\<close>,
  is still there after \<^verbatim>\<open>loadSavedSession\<close>. And \<^verbatim>\<open>get-current-user\<close> does not look at the
  file when \<^verbatim>\<open>currentUser\<close> is \<^verbatim>\<open>null\<close>, so an unparseable file is still there after it.
\<close>

theorem corrupt_record_counterexample:
  "userSessionFile (snd (loadSavedSession 1000
       \<lparr>currentUser = JNull, userSessionFile = File (Parsed (JObj fmempty))\<rparr>))
     = File (Parsed (JObj fmempty))
   \<and> userSessionFile (snd (get_current_user 1000 1000 1000
       \<lparr>currentUser = JNull, userSessionFile = File Unparseable\<rparr>))
     = File Unparseable"
  by (simp add: loadSavedSession_def get_current_user_def existsSync_def readFileSync_def
      JSON_parse_def)

text \<open>
  C4, as amended. When the store works and already holds the email, \<^verbatim>\<open>register-user\<close>
  answers \<^verbatim>\<open>Email already registered\<close> from its own look-up and leaves the store as it
  was. When it is the \<^verbatim>\<open>UNIQUE\<close> constraint of the insertion that finds the email, the
  handler answers with the message of the storage error, through the \<^verbatim>\<open>catch\<close> that serves
  every error, and the store is again as it was.
\<close>

theorem register_duplicate_email:
  assumes works: "fault db = None"
    and present: "email \<in> set (map user_email (rows db))"
  shows "register_user lib salt name email password db
           = (failure ''Email already registered'', db)
       \<and> register_user_insert name email hashedPassword db
           = (failure ''UNIQUE constraint failed: user.email'', db)"
proof -
  from present obtain r where "find (\<lambda>r. user_email r = email) (rows db) = Some r"
    using find_None_iff_email [of email "rows db"]
    by (cases "find (\<lambda>r. user_email r = email) (rows db)") auto
  then have "register_user lib salt name email password db
           = (failure ''Email already registered'', db)"
    using works by (simp add: register_user_def getUserByEmail_def)
  moreover have "register_user_insert name email hashedPassword db
           = (failure ''UNIQUE constraint failed: user.email'', db)"
    using works present by (simp add: register_user_insert_def saveUserToDB_def)
  ultimately show ?thesis
    by simp
qed

theorem register_duplicate_email_witness:
  "register_user example_bcrypt ''salt'' ''Bob'' ''a@x.com'' ''secret'' alice_store
     = (failure ''Email already registered'', alice_store)"
proof -
  have "fault alice_store = None"
    by (simp add: alice_store_def)
  moreover have "''a@x.com'' \<in> set (map user_email (rows alice_store))"
    by (simp add: alice_store_def alice_def)
  ultimately show ?thesis
    using register_duplicate_email [of alice_store "''a@x.com''"] by simp
qed

text \<open>
  C4 as stated fails where the constraint, not the look-up, finds the duplicate. Two
  registrations of \<^verbatim>\<open>a@x.com\<close> arrive while the store is empty; each passes its look-up
  and waits for its hash. The first to resume inserts its row. The second resumes on a
  store that holds the email, its insertion fails on the constraint, and its answer is
  the storage error's message, not \<^verbatim>\<open>Email already registered\<close>.
\<close>

theorem register_duplicate_email_counterexample:
  "getUserByEmail ''a@x.com'' empty_store = Inr None
   \<and> register_user_insert ''Alice'' ''a@x.com'' ''321wp'' empty_store
       = (registered 1, alice_store)
   \<and> ''a@x.com'' \<in> set (map user_email (rows alice_store))
   \<and> register_user_insert ''Bob'' ''a@x.com'' ''terces'' alice_store
       = (failure ''UNIQUE constraint failed: user.email'', alice_store)
   \<and> failure ''UNIQUE constraint failed: user.email'' \<noteq> failure ''Email already registered''"
proof -
  have "failure ''UNIQUE constraint failed: user.email'' \<noteq> failure ''Email already registered''"
    using failure_inject [of "''UNIQUE constraint failed: user.email''"
        "''Email already registered''"]
    by auto
  then show ?thesis
    by (simp add: getUserByEmail_def register_user_insert_def saveUserToDB_def empty_store_def
        alice_store_def alice_def next_rowid_def Let_def)
qed

text \<open>
  C5. On a working store, \<^verbatim>\<open>login-user\<close> with an email that no row holds answers
  \<^verbatim>\<open>User not found\<close>, and with the email of a stored user and a password that
  \<^verbatim>\<open>bcrypt.compare\<close> rejects against the stored hash it answers \<^verbatim>\<open>Invalid password\<close>. In
  both cases the session state, \<^verbatim>\<open>currentUser\<close> and the session file, is returned as it
  was. The emails of the rows are distinct, as the \<^verbatim>\<open>UNIQUE\<close> constraint keeps them.
\<close>

theorem login_failures:
  assumes works: "fault db = None"
  shows "(email \<notin> set (map user_email (rows db)) \<longrightarrow>
            login_user lib email password t1 t2 db st = (failure ''User not found'', st))
       \<and> (distinct (map user_email (rows db)) \<and> user \<in> set (rows db)
            \<and> \<not> bcrypt_compare lib password (user_password user) \<longrightarrow>
            login_user lib (user_email user) password t1 t2 db st
              = (failure ''Invalid password'', st))"
  using works
  by (auto simp: login_user_def getUserByEmail_def comparePassword_def Let_def
      find_distinct_email find_None_iff_email [THEN iffD2])

theorem login_failures_witness:
  "login_user example_bcrypt ''b@x.com'' ''pw123'' 1000 1000 alice_store alice_session
     = (failure ''User not found'', alice_session)
   \<and> login_user example_bcrypt ''a@x.com'' ''wrong'' 1000 1000 alice_store no_session
     = (failure ''Invalid password'', no_session)"
proof -
  have works: "fault alice_store = None"
    by (simp add: alice_store_def)
  have "''b@x.com'' \<notin> set (map user_email (rows alice_store))"
    by (simp add: alice_store_def alice_def)
  moreover have "distinct (map user_email (rows alice_store)) \<and> alice \<in> set (rows alice_store)
            \<and> \<not> bcrypt_compare example_bcrypt ''wrong'' (user_password alice)"
    by (simp add: alice_store_def alice_def example_bcrypt_def)
  moreover have "user_email alice = ''a@x.com''"
    by (simp add: alice_def)
  ultimately show ?thesis
    using login_failures [OF works, where email = "''b@x.com''" and lib = example_bcrypt
        and password = "''pw123''" and ?t1.0 = 1000 and ?t2.0 = 1000 and st = alice_session]
      login_failures [OF works, where user = alice and lib = example_bcrypt
        and password = "''wrong''" and ?t1.0 = 1000 and ?t2.0 = 1000 and st = no_session]
    by simp
qed

text \<open>
  C6. A session established by a login is refreshed at clock reading \<open>T2\<close>
  (\<^verbatim>\<open>refreshSession\<close>, as \<^verbatim>\<open>session-activity\<close> calls it). The file then holds the same user
  with \<^verbatim>\<open>timestamp\<close> \<open>T2\<close>, and at every reading \<open>T'\<close> with \<open>T' - T2 < SESSION_TIMEOUT\<close>
  \<^verbatim>\<open>loadSavedSession\<close> returns \<^verbatim>\<open>true\<close> and \<^verbatim>\<open>get-current-user\<close> the user, however long
  after the login that is. \<^verbatim>\<open>refreshSession\<close> does not look at the age of the session, so
  the theorem needs no bound on \<open>T2\<close>; \<open>T2\<close> is not 0, as a \<^verbatim>\<open>timestamp\<close> of 0 is falsy.
  When \<^verbatim>\<open>currentUser\<close> is not set, \<^verbatim>\<open>refreshSession\<close> changes nothing.
\<close>

theorem refresh_extends:
  assumes login: "login_user lib email password T t2 db st0 = (logged_in user, st)"
    and usable: "userSessionFile st0 \<noteq> Unusable"
    and T2: "T2 \<noteq> 0"
    and before: "T' - T2 < SESSION_TIMEOUT"
  shows "fst (loadSavedSession T' (refreshSession T2 r2 st)) = True
       \<and> fst (get_current_user T' r3 r4 (refreshSession T2 r2 st)) = user
       \<and> (\<exists>d. userSessionFile (refreshSession T2 r2 st) = File (Parsed d)
              \<and> get_prop d ''user'' = Some user
              \<and> get_prop d ''timestamp'' = Some (JNum T2))
       \<and> currentUser (refreshSession T2 r2 st) = user
       \<and> (\<not> truthy (currentUser s) \<longrightarrow> refreshSession a b s = s)"
proof -
  from login obtain row where u: "user = user_view row"
    and st: "st = saveSession T t2 (user_view row) (st0\<lparr>currentUser := user_view row\<rparr>)"
    using login_user_success by blast
  let ?d = "JObj (fmap_of_list
        [(''user'', user_view row), (''timestamp'', JNum T2),
         (''expiresAt'', JNum (r2 + SESSION_TIMEOUT))])"
  let ?st = "\<lparr>currentUser = user_view row, userSessionFile = File (Parsed ?d)\<rparr>"
  have "st = \<lparr>currentUser = user_view row, userSessionFile = File (Parsed (JObj (fmap_of_list
        [(''user'', user_view row), (''timestamp'', JNum T),
         (''expiresAt'', JNum (t2 + SESSION_TIMEOUT))])))\<rparr>"
    using st usable by (simp add: saveSession_user_view)
  then have r: "refreshSession T2 r2 st = ?st"
    by (simp add: refreshSession_def truthy_user_view saveSession_user_view)
  have load: "loadSavedSession T' ?st = (True, ?st)"
    using before
      loadSavedSession_record [where st = ?st and d = ?d and u = "user_view row" and T = T2
        and now = T' and e = "user_email row"]
    by (simp add: truthy_user_view user_view_email T2)
  have "fst (get_current_user T' r3 r4 ?st) = user"
    using load
    by (simp add: get_current_user_def u truthy_user_view refreshSession_def
        saveSession_currentUser Let_def)
  moreover have "\<not> truthy (currentUser s) \<longrightarrow> refreshSession a b s = s"
    by (simp add: refreshSession_def)
  ultimately show ?thesis
    using load by (simp add: r u)
qed

theorem refresh_extends_witness:
  "fst (loadSavedSession (1500 + SESSION_TIMEOUT) alice_session) = False
   \<and> fst (loadSavedSession (1500 + SESSION_TIMEOUT) (refreshSession 2000 2000 alice_session))
       = True
   \<and> fst (get_current_user (1500 + SESSION_TIMEOUT) 0 0 (refreshSession 2000 2000 alice_session))
       = user_view alice
   \<and> refreshSession 2000 2000 no_session = no_session"
proof -
  have usable: "userSessionFile no_session \<noteq> Unusable"
    by (simp add: no_session_def)
  have T2: "(2000::int) \<noteq> 0"
    by simp
  have before: "(1500 + SESSION_TIMEOUT) - 2000 < SESSION_TIMEOUT"
    by simp
  have d: "userSessionFile alice_session = File (Parsed (JObj (fmap_of_list
        [(''user'', user_view alice), (''timestamp'', JNum 1000),
         (''expiresAt'', JNum (1000 + SESSION_TIMEOUT))])))"
    by (simp add: alice_session_def)
  have "loadSavedSession (1500 + SESSION_TIMEOUT) alice_session =
     (if (1500 + SESSION_TIMEOUT) - 1000 < SESSION_TIMEOUT
      then (True, alice_session\<lparr>currentUser := user_view alice\<rparr>)
      else (False, alice_session\<lparr>userSessionFile := Missing, currentUser := JNull\<rparr>))"
    by (rule loadSavedSession_record [OF d]) (simp_all add: truthy_user_view user_view_email)
  then have "fst (loadSavedSession (1500 + SESSION_TIMEOUT) alice_session) = False"
    by simp
  moreover have "\<not> truthy (currentUser no_session)"
    by (simp add: no_session_def)
  ultimately show ?thesis
    using refresh_extends [OF login_alice usable T2 before, of 2000 0 0 no_session 2000 2000]
    by simp
qed

text \<open>
  C7. \<open>n + 1\<close> calls of \<^verbatim>\<open>loadSavedSession\<close> in a row at one clock reading, from any
  state, all return the boolean of the first call, and the state after the last call is
  the state after the first.
\<close>

theorem restore_idempotent:
  "restores now (Suc n) st =
     (replicate (Suc n) (fst (loadSavedSession now st)), snd (loadSavedSession now st))"
proof -
  obtain b st1 where l: "loadSavedSession now st = (b, st1)"
    by (cases "loadSavedSession now st")
  then have "loadSavedSession now st1 = (b, st1)"
    by (rule loadSavedSession_again)
  then have "restores now n st1 = (replicate n b, st1)"
    by (rule restores_fixed)
  with l show ?thesis
    by simp
qed

theorem restore_idempotent_witness:
  "restores 5000 3 alice_session = ([True, True, True], alice_session)
   \<and> restores (1000 + SESSION_TIMEOUT) 3 alice_session = ([False, False, False], no_session)"
proof -
  have d: "userSessionFile alice_session = File (Parsed (JObj (fmap_of_list
        [(''user'', user_view alice), (''timestamp'', JNum 1000),
         (''expiresAt'', JNum (1000 + SESSION_TIMEOUT))])))"
    by (simp add: alice_session_def)
  have l: "loadSavedSession now alice_session =
     (if now - 1000 < SESSION_TIMEOUT
      then (True, alice_session\<lparr>currentUser := user_view alice\<rparr>)
      else (False, alice_session\<lparr>userSessionFile := Missing, currentUser := JNull\<rparr>))" for now
    by (rule loadSavedSession_record [OF d]) (simp_all add: truthy_user_view user_view_email)
  have "loadSavedSession 5000 alice_session = (True, alice_session)"
    by (simp add: l) (simp add: alice_session_def SESSION_TIMEOUT_def)
  moreover have "loadSavedSession (1000 + SESSION_TIMEOUT) alice_session = (False, no_session)"
    by (simp add: l) (simp add: alice_session_def no_session_def)
  ultimately show ?thesis
    using restore_idempotent [of 5000 2 alice_session]
      restore_idempotent [of "1000 + SESSION_TIMEOUT" 2 alice_session]
    by (simp add: numeral_3_eq_3)
qed

text \<open>
  C8. \<^verbatim>\<open>save-user-preferences\<close> changes nothing when \<^verbatim>\<open>currentUser\<close> is not set. When
  \<^verbatim>\<open>currentUser\<close> is an object and the argument is an object \<open>patch\<close>, the handler sets
  the user's \<^verbatim>\<open>preferences\<close> to the merge of the old preferences and the patch, in which
  a key of the patch has the patch's value and any other key its old value, and writes
  the session file anew (when it can be written): the record holds the user's \<^verbatim>\<open>id\<close>,
  \<^verbatim>\<open>name\<close> and \<^verbatim>\<open>email\<close>, the merged preferences, and the first clock reading as
  \<^verbatim>\<open>timestamp\<close>.
\<close>

theorem update_preferences:
  "(\<not> truthy (currentUser st) \<longrightarrow> save_user_preferences t1 t2 preferences st = st)
   \<and> (currentUser st = JObj u \<and> userSessionFile st \<noteq> Unusable \<longrightarrow>
        (let old = own_props (fmlookup u ''preferences'');
             merged = old ++\<^sub>f patch;
             st' = save_user_preferences t1 t2 (JObj patch) st
         in currentUser st' = JObj (fmupd ''preferences'' (JObj merged) u)
          \<and> (\<forall>k. fmlookup merged k
                 = (case fmlookup patch k of Some v \<Rightarrow> Some v | None \<Rightarrow> fmlookup old k))
          \<and> (\<exists>d m. userSessionFile st' = File (Parsed d)
                \<and> get_prop d ''timestamp'' = Some (JNum t1)
                \<and> get_prop d ''user'' = Some (JObj m)
                \<and> fmlookup m ''preferences'' = Some (JSON_roundtrip (JObj merged))
                \<and> fmlookup m ''id'' = map_option JSON_roundtrip (fmlookup u ''id'')
                \<and> fmlookup m ''name'' = map_option JSON_roundtrip (fmlookup u ''name'')
                \<and> fmlookup m ''email'' = map_option JSON_roundtrip (fmlookup u ''email''))))"
proof -
  have noop: "\<not> truthy (currentUser st) \<longrightarrow> save_user_preferences t1 t2 preferences st = st"
    by (simp add: save_user_preferences_def)
  have upd: "(let old = own_props (fmlookup u ''preferences'');
             merged = old ++\<^sub>f patch;
             st' = save_user_preferences t1 t2 (JObj patch) st
         in currentUser st' = JObj (fmupd ''preferences'' (JObj merged) u)
          \<and> (\<forall>k. fmlookup merged k
                 = (case fmlookup patch k of Some v \<Rightarrow> Some v | None \<Rightarrow> fmlookup old k))
          \<and> (\<exists>d m. userSessionFile st' = File (Parsed d)
                \<and> get_prop d ''timestamp'' = Some (JNum t1)
                \<and> get_prop d ''user'' = Some (JObj m)
                \<and> fmlookup m ''preferences'' = Some (JSON_roundtrip (JObj merged))
                \<and> fmlookup m ''id'' = map_option JSON_roundtrip (fmlookup u ''id'')
                \<and> fmlookup m ''name'' = map_option JSON_roundtrip (fmlookup u ''name'')
                \<and> fmlookup m ''email'' = map_option JSON_roundtrip (fmlookup u ''email'')))"
    if cu: "currentUser st = JObj u" and usable: "userSessionFile st \<noteq> Unusable"
  proof -
    let ?merged = "own_props (fmlookup u ''preferences'') ++\<^sub>f patch"
    let ?user = "JObj (fmupd ''preferences'' (JObj ?merged) u)"
    have sp: "save_user_preferences t1 t2 (JObj patch) st
        = saveSession t1 t2 ?user (st\<lparr>currentUser := ?user\<rparr>)"
      by (simp add: save_user_preferences_def cu Let_def)
    have "?user \<noteq> JNull" and "userSessionFile (st\<lparr>currentUser := ?user\<rparr>) \<noteq> Unusable"
      using usable by simp_all
    from saveSession_file [OF this, of t1 t2] obtain d m where
      "saveSession t1 t2 ?user (st\<lparr>currentUser := ?user\<rparr>)
         = st\<lparr>currentUser := ?user, userSessionFile := File (Parsed d)\<rparr>"
      "get_prop d ''timestamp'' = Some (JNum t1)"
      "get_prop d ''user'' = Some (JObj m)"
      "fmlookup m ''id'' = map_option JSON_roundtrip (get_prop ?user ''id'')"
      "fmlookup m ''name'' = map_option JSON_roundtrip (get_prop ?user ''name'')"
      "fmlookup m ''email'' = map_option JSON_roundtrip (get_prop ?user ''email'')"
      "fmlookup m ''preferences'' =
          Some (JSON_roundtrip (or_else (get_prop ?user ''preferences'') (JObj fmempty)))"
      by auto
    moreover have "fmlookup ?merged k
                 = (case fmlookup patch k of Some v \<Rightarrow> Some v
                    | None \<Rightarrow> fmlookup (own_props (fmlookup u ''preferences'')) k)" for k
      by (auto simp: fmlookup_dom_iff split: option.splits)
    ultimately show ?thesis
      by (simp add: sp Let_def)
  qed
  from noop upd show ?thesis
    by blast
qed

theorem update_preferences_witness:
  "save_user_preferences 2000 2000 (JObj (fmap_of_list [(''darkMode'', JBool True)])) no_session
     = no_session
   \<and> (\<exists>m. get_prop (currentUser (save_user_preferences 2000 2000
               (JObj (fmap_of_list [(''darkMode'', JBool True)])) alice_session)) ''preferences''
            = Some (JObj m)
         \<and> fmlookup m ''darkMode'' = Some (JBool True)
         \<and> fmlookup m ''lastUsedAI'' = Some (JStr ''claude''))
   \<and> (\<exists>d u m. userSessionFile (save_user_preferences 2000 2000
               (JObj (fmap_of_list [(''darkMode'', JBool True)])) alice_session) = File (Parsed d)
         \<and> get_prop d ''timestamp'' = Some (JNum 2000)
         \<and> get_prop d ''user'' = Some (JObj u)
         \<and> fmlookup u ''email'' = Some (JStr ''a@x.com'')
         \<and> fmlookup u ''preferences'' = Some (JObj m)
         \<and> fmlookup m ''darkMode'' = Some (JBool True)
         \<and> fmlookup m ''lastUsedAI'' = Some (JStr ''claude''))"
proof -
  let ?u = "fmap_of_list
     [(''id'', JNum 1), (''name'', JStr ''Alice''), (''email'', JStr ''a@x.com''),
      (''preferences'', JObj (fmap_of_list
          [(''darkMode'', JBool False), (''lastUsedAI'', JStr ''claude'')]))]"
  have n: "\<not> truthy (currentUser no_session)"
    by (simp add: no_session_def)
  have cu: "currentUser alice_session = JObj ?u \<and> userSessionFile alice_session \<noteq> Unusable"
    by (simp add: alice_session_def user_view_def alice_def)
  show ?thesis
    using update_preferences [of no_session 2000 2000
        "JObj (fmap_of_list [(''darkMode'', JBool True)])"]
      update_preferences [of alice_session 2000 2000 _ ?u
        "fmap_of_list [(''darkMode'', JBool True)]"]
      n cu
    apply (simp add: Let_def fmmap_fmupd)
    apply (elim conjE exE)
    apply (simp add: fmmap_fmupd)
    done
qed



text \<open>
  C10. \<^verbatim>\<open>saveSession\<close> reads the clock twice, \<open>t1\<close> for \<^verbatim>\<open>timestamp\<close> and \<open>t2\<close> for
  \<^verbatim>\<open>expiresAt\<close>. When the two readings are the same, the record that \<^verbatim>\<open>saveSession\<close>
  writes has \<^verbatim>\<open>expiresAt = timestamp + SESSION_TIMEOUT\<close>: called directly, from
  \<^verbatim>\<open>login-user\<close>, from \<^verbatim>\<open>refreshSession\<close>, and from \<^verbatim>\<open>save-user-preferences\<close>.
\<close>

theorem expiresAt_consistent:
  assumes usable: "userSessionFile st \<noteq> Unusable"
    and same: "t2 = t1"
  shows "(userData \<noteq> JNull \<longrightarrow>
            record_times (userSessionFile (saveSession t1 t2 userData st))
              = Some (t1, t1 + SESSION_TIMEOUT))
       \<and> (login_user lib email password t1 t2 db st = (logged_in user, st') \<longrightarrow>
            record_times (userSessionFile st') = Some (t1, t1 + SESSION_TIMEOUT))
       \<and> (truthy (currentUser st) \<longrightarrow>
            record_times (userSessionFile (refreshSession t1 t2 st))
              = Some (t1, t1 + SESSION_TIMEOUT))
       \<and> (truthy (currentUser st) \<longrightarrow>
            record_times (userSessionFile (save_user_preferences t1 t2 preferences st))
              = Some (t1, t1 + SESSION_TIMEOUT))"
proof -
  have a: "userData \<noteq> JNull \<longrightarrow>
            record_times (userSessionFile (saveSession t1 t2 userData st))
              = Some (t1, t1 + SESSION_TIMEOUT)"
    using usable same by (simp add: saveSession_times)
  have b: "login_user lib email password t1 t2 db st = (logged_in user, st') \<longrightarrow>
            record_times (userSessionFile st') = Some (t1, t1 + SESSION_TIMEOUT)"
  proof
    assume "login_user lib email password t1 t2 db st = (logged_in user, st')"
    then obtain row where
      "st' = saveSession t1 t2 (user_view row) (st\<lparr>currentUser := user_view row\<rparr>)"
      using login_user_success by blast
    then show "record_times (userSessionFile st') = Some (t1, t1 + SESSION_TIMEOUT)"
      using usable same by (simp add: saveSession_times truthy_not_null truthy_user_view)
  qed
  have c: "truthy (currentUser st) \<longrightarrow>
            record_times (userSessionFile (refreshSession t1 t2 st))
              = Some (t1, t1 + SESSION_TIMEOUT)"
    using usable same by (simp add: refreshSession_def saveSession_times truthy_not_null)
  have d: "truthy (currentUser st) \<longrightarrow>
            record_times (userSessionFile (save_user_preferences t1 t2 preferences st))
              = Some (t1, t1 + SESSION_TIMEOUT)"
    using usable same
    by (simp add: save_user_preferences_def Let_def saveSession_times truthy_not_null
        truthy_set_prop)
  from a b c d show ?thesis by blast
qed

theorem expiresAt_consistent_witness:
  "record_times (userSessionFile (saveSession 2000 2000 (user_view alice) no_session))
     = Some (2000, 2000 + SESSION_TIMEOUT)
   \<and> record_times (userSessionFile alice_session) = Some (1000, 1000 + SESSION_TIMEOUT)
   \<and> record_times (userSessionFile (refreshSession 2000 2000 alice_session))
     = Some (2000, 2000 + SESSION_TIMEOUT)
   \<and> record_times (userSessionFile (save_user_preferences 2000 2000
         (JObj (fmap_of_list [(''darkMode'', JBool True)])) alice_session))
     = Some (2000, 2000 + SESSION_TIMEOUT)"
proof -
  have u1: "userSessionFile no_session \<noteq> Unusable"
    by (simp add: no_session_def)
  have u2: "userSessionFile alice_session \<noteq> Unusable"
    by (simp add: alice_session_def)
  have t: "truthy (currentUser alice_session)"
    by (simp add: alice_session_def truthy_user_view)
  have n: "user_view alice \<noteq> JNull"
    by (simp add: truthy_not_null truthy_user_view)
  show ?thesis
    using expiresAt_consistent [OF u1 refl, where ?t1.0 = 2000 and userData = "user_view alice"]
      expiresAt_consistent [OF u1 refl, where ?t1.0 = 1000 and lib = example_bcrypt
        and email = "''a@x.com''" and password = "''pw123''" and db = alice_store
        and user = "user_view alice" and st' = alice_session]
      expiresAt_consistent [OF u2 refl, where ?t1.0 = 2000
        and preferences = "JObj (fmap_of_list [(''darkMode'', JBool True)])"]
      t n login_alice
    by simp
qed

end
